theory Spec2Isabelle
  imports Main "HOL-Library.Word"
begin

section \<open>JavaScript strings\<close>

text \<open>
  A JavaScript string is a sequence of 16-bit code units. String literals of the source
  are ASCII; \<open>lit\<close> reads one as code units.
\<close>

type_synonym jsstring = "16 word list"

definition lit :: "string \<Rightarrow> jsstring" where
  "lit s = map of_char s"

text \<open>
  \<^verbatim>\<open>String.prototype.trim\<close> strips, at both ends, the code units that ECMAScript
  calls WhiteSpace (TAB, VT, FF, SP, NBSP, ZWNBSP and the Unicode space separators) or
  LineTerminator (LF, CR, LS, PS). All of them lie in the basic plane, so the test is on
  single code units.
\<close>

definition is_ws :: "16 word \<Rightarrow> bool" where
  "is_ws c \<longleftrightarrow>
     c \<in> set [0x0009, 0x000A, 0x000B, 0x000C, 0x000D, 0x0020, 0x00A0, 0x1680,
              0x2000, 0x2001, 0x2002, 0x2003, 0x2004, 0x2005, 0x2006, 0x2007,
              0x2008, 0x2009, 0x200A, 0x2028, 0x2029, 0x202F, 0x205F, 0x3000, 0xFEFF]"

definition trim :: "jsstring \<Rightarrow> jsstring" where
  "trim s = rev (dropWhile is_ws (rev (dropWhile is_ws s)))"

section \<open>The Redux store\<close>

text \<open>
  A todo as \<open>prepare\<close> of \<open>addTodo\<close> builds it:
  \<^verbatim>\<open>{ id: nanoid(), title, done: false, createdAt: Date.now() }\<close>.
\<close>

record todo =
  id' :: jsstring
  title :: jsstring
  "done" :: bool
  createdAt :: int

text \<open>The state of the \<open>todos\<close> slice: \<^verbatim>\<open>initialState: { items: [] }\<close>.\<close>

record todos_state =
  items :: "todo list"

definition todos_initialState :: todos_state where
  "todos_initialState = \<lparr>items = []\<rparr>"

text \<open>
  \<open>addTodo\<close>: the reducer is \<^verbatim>\<open>state.items.unshift(action.payload)\<close>; \<open>prepare\<close> builds
  the payload from the title. The results of its calls \<^verbatim>\<open>nanoid()\<close> and \<^verbatim>\<open>Date.now()\<close> are
  arguments of the model.
\<close>

definition addTodo_prepare :: "jsstring \<Rightarrow> int \<Rightarrow> jsstring \<Rightarrow> todo" where
  "addTodo_prepare nanoid now ttl = \<lparr>id' = nanoid, title = ttl, done = False, createdAt = now\<rparr>"

definition addTodo_reducer :: "todos_state \<Rightarrow> todo \<Rightarrow> todos_state" where
  "addTodo_reducer state payload = state\<lparr>items := payload # items state\<rparr>"

text \<open>
  \<open>toggleTodo\<close>:
  \<^verbatim>\<open>const todo = state.items.find((t) => t.id === action.payload);
  if (todo) todo.done = !todo.done;\<close>
  \<open>find\<close> returns the first item with the id; the assignment changes that item where it
  stands in the array. \<open>toggle_found\<close> walks to the first match and flips it there.
\<close>

fun toggle_found :: "jsstring \<Rightarrow> todo list \<Rightarrow> todo list" where
  "toggle_found payload [] = []"
| "toggle_found payload (t # ts) =
     (if id' t = payload then t\<lparr>done := \<not> done t\<rparr> # ts else t # toggle_found payload ts)"

definition toggleTodo :: "todos_state \<Rightarrow> jsstring \<Rightarrow> todos_state" where
  "toggleTodo state payload =
     (case find (\<lambda>t. id' t = payload) (items state) of
        None \<Rightarrow> state
      | Some _ \<Rightarrow> state\<lparr>items := toggle_found payload (items state)\<rparr>)"

text \<open>\<open>removeTodo\<close>: \<^verbatim>\<open>state.items = state.items.filter((t) => t.id !== action.payload)\<close>.\<close>

definition removeTodo :: "todos_state \<Rightarrow> jsstring \<Rightarrow> todos_state" where
  "removeTodo state payload = state\<lparr>items := filter (\<lambda>t. id' t \<noteq> payload) (items state)\<rparr>"

text \<open>\<open>clearTodos\<close>: \<^verbatim>\<open>state.items = []\<close>.\<close>

definition clearTodos :: "todos_state \<Rightarrow> todos_state" where
  "clearTodos state = state\<lparr>items := []\<rparr>"

section \<open>The component \<open>TodosCard\<close>\<close>

text \<open>
  The second argument of \<open>showBanner\<close> is \<^verbatim>\<open>"add"\<close> or \<^verbatim>\<open>"done"\<close>; \<open>lastAction\<close> holds one of
  them or \<^verbatim>\<open>null\<close>.
\<close>

datatype action = Add | Done

text \<open>
  What a handler can report to its caller instead of returning. \<open>InvalidInput\<close> is the
  error the specification names for an empty title; no \<^verbatim>\<open>throw\<close> stands in the source.
\<close>

datatype error = InvalidInput

text \<open>
  The state one event handler sees and the next one finds: the Redux store (\<open>ui.darkMode\<close>
  and the \<open>todos\<close> slice), the \<^verbatim>\<open>useState\<close> cells of \<open>TodosCard\<close> (\<open>title\<close>, here
  \<open>title_input\<close>, and the four banner cells) and the callbacks \<^verbatim>\<open>setTimeout\<close> has
  scheduled and not yet run, each as the milliseconds left until it is due. Every
  scheduled callback is the same closure of \<open>showBanner\<close>, so the delay identifies it.
\<close>

record app =
  darkMode :: bool
  todos :: todos_state
  title_input :: jsstring
  bannerVisible :: bool
  bannerMessage :: jsstring
  lastTodo :: "todo option"
  lastAction :: "action option"
  timers :: "nat list"

definition app_initial :: app where
  "app_initial =
     \<lparr>darkMode = False, todos = todos_initialState, title_input = [], bannerVisible = False,
      bannerMessage = [], lastTodo = None, lastAction = None, timers = []\<rparr>"

text \<open>The actions of the two slices, and \<open>dispatch\<close> running the slice reducers.\<close>

datatype redux_action =
    ToggleDarkMode
  | AddTodo todo
  | ToggleTodo jsstring
  | RemoveTodo jsstring
  | ClearTodos

fun dispatch :: "redux_action \<Rightarrow> app \<Rightarrow> app" where
  "dispatch ToggleDarkMode s = s\<lparr>darkMode := \<not> darkMode s\<rparr>"
| "dispatch (AddTodo payload) s = s\<lparr>todos := addTodo_reducer (todos s) payload\<rparr>"
| "dispatch (ToggleTodo payload) s = s\<lparr>todos := toggleTodo (todos s) payload\<rparr>"
| "dispatch (RemoveTodo payload) s = s\<lparr>todos := removeTodo (todos s) payload\<rparr>"
| "dispatch ClearTodos s = s\<lparr>todos := clearTodos (todos s)\<rparr>"

text \<open>\<^verbatim>\<open>onChangeText={setTitle}\<close>: typing into the text field.\<close>

definition setTitle :: "jsstring \<Rightarrow> app \<Rightarrow> app" where
  "setTitle t s = s\<lparr>title_input := t\<rparr>"

text \<open>
  The four calls
  \<^verbatim>\<open>setBannerVisible(false); setLastTodo(null); setLastAction(null); setBannerMessage("");\<close>
  stand in the source four times: in the timer's callback, in the else branch of
  \<open>handleToggleDone\<close>, at the end of \<open>handleUndo\<close> and as \<open>handleDismiss\<close>.
\<close>

definition clearBanner :: "app \<Rightarrow> app" where
  "clearBanner s = s\<lparr>bannerVisible := False, lastTodo := None, lastAction := None, bannerMessage := []\<rparr>"

text \<open>
  \<open>showBanner\<close> sets the four cells and calls \<^verbatim>\<open>setTimeout(..., 3000)\<close>. It keeps no handle
  of the timer and the source has no \<^verbatim>\<open>clearTimeout\<close>: the new callback joins the pending
  ones.
\<close>

definition showBanner :: "jsstring \<Rightarrow> todo \<Rightarrow> action \<Rightarrow> app \<Rightarrow> app" where
  "showBanner message t a s =
     s\<lparr>bannerMessage := message, lastTodo := Some t, lastAction := Some a, bannerVisible := True,
       timers := timers s @ [3000]\<rparr>"

text \<open>
  \<open>handleAddTodo\<close> calls \<^verbatim>\<open>nanoid()\<close> and \<^verbatim>\<open>Date.now()\<close> twice: for its local \<open>newTodo\<close>
  (line 182) and, through \<open>addTodo\<close>, in \<open>prepare\<close> (line 49). The four results are the
  handler's environment.
\<close>

record add_env =
  local_nanoid :: jsstring
  local_now :: int
  store_nanoid :: jsstring
  store_now :: int

text \<open>
  \<^verbatim>\<open>if (!title.trim()) return;
  const newTodo = { id: nanoid(), title: title.trim(), done: false, createdAt: Date.now() };
  dispatch(addTodo(newTodo.title));
  setTitle("");
  Haptics.impactAsync(...);
  showBanner(`Added: "${newTodo.title}"`, newTodo, "add");\<close>
  The empty string is the only falsy string. The haptic feedback changes no state.
\<close>

definition handleAddTodo :: "add_env \<Rightarrow> app \<Rightarrow> error + app" where
  "handleAddTodo e s =
     (if trim (title_input s) = [] then Inr s
      else
        let newTodo = \<lparr>id' = local_nanoid e, title = trim (title_input s), done = False,
                       createdAt = local_now e\<rparr>;
            s1 = dispatch (AddTodo (addTodo_prepare (store_nanoid e) (store_now e) (title newTodo))) s;
            s2 = setTitle [] s1
        in Inr (showBanner (lit ''Added: '' @ [0x22] @ title newTodo @ [0x22]) newTodo Add s2))"

text \<open>
  \<^verbatim>\<open>dispatch(toggleTodo(todo.id));
  if (!todo.done) {
    showBanner(`Completed: "${todo.title}"`, todo, "done");
  } else {
    setBannerVisible(false); setLastTodo(null); setLastAction(null); setBannerMessage("");
  }\<close>
  The argument is the item the pressed card was rendered from; the dispatch leaves that
  object as it is, so \<open>todo.done\<close> is the flag from before the toggle.
\<close>

definition handleToggleDone :: "todo \<Rightarrow> app \<Rightarrow> error + app" where
  "handleToggleDone t s =
     (let s1 = dispatch (ToggleTodo (id' t)) s
      in if \<not> done t
         then Inr (showBanner (lit ''Completed: '' @ [0x22] @ title t @ [0x22]) t Done s1)
         else Inr (clearBanner s1))"

text \<open>
  \<^verbatim>\<open>if (!lastTodo || !lastAction) return;
  if (lastAction === "add") {
    dispatch(removeTodo(lastTodo.id));
  } else if (lastAction === "done") {
    dispatch(toggleTodo(lastTodo.id));
  }
  setBannerVisible(false); setLastTodo(null); setLastAction(null); setBannerMessage("");\<close>
\<close>

definition handleUndo :: "app \<Rightarrow> error + app" where
  "handleUndo s =
     (case lastTodo s of
        None \<Rightarrow> Inr s
      | Some t \<Rightarrow>
          (case lastAction s of
             None \<Rightarrow> Inr s
           | Some Add \<Rightarrow> Inr (clearBanner (dispatch (RemoveTodo (id' t)) s))
           | Some Done \<Rightarrow> Inr (clearBanner (dispatch (ToggleTodo (id' t)) s))))"

definition handleDismiss :: "app \<Rightarrow> error + app" where
  "handleDismiss s = Inr (clearBanner s)"

text \<open>
  Time passing with no other event: \<open>d\<close> milliseconds later every pending callback that
  was due within \<open>d\<close> has run (each clears the banner) and the others are \<open>d\<close> closer.
  A callback runs when its delay is over; the lateness a real event loop adds is left out.
\<close>

definition elapse :: "nat \<Rightarrow> app \<Rightarrow> error + app" where
  "elapse d s =
     (let due = filter (\<lambda>r. r \<le> d) (timers s);
          pending = map (\<lambda>r. r - d) (filter (\<lambda>r. d < r) (timers s))
      in Inr (fold (\<lambda>_. clearBanner) due (s\<lparr>timers := pending\<rparr>)))"

text \<open>One event after another; an error ends the run.\<close>

definition andThen :: "error + app \<Rightarrow> (app \<Rightarrow> error + app) \<Rightarrow> error + app" where
  "andThen r f = (case r of Inl err \<Rightarrow> Inl err | Inr s \<Rightarrow> f s)"

text \<open>\<^verbatim>\<open>onChangeText={setTitle}\<close> as an event of its own.\<close>

definition onChangeText :: "jsstring \<Rightarrow> app \<Rightarrow> error + app" where
  "onChangeText t s = Inr (setTitle t s)"

text \<open>
  Example data: two ids as \<^verbatim>\<open>nanoid()\<close> returns them (21 characters of its alphabet) and a
  clock reading.
\<close>

definition example_env :: add_env where
  "example_env =
     \<lparr>local_nanoid = lit ''V1StGXR8_Z5jdHi6B-myT'', local_now = 1762041600000,
      store_nanoid = lit ''Uakgb_J5m9g-0JDMbcJqL'', store_now = 1762041600000\<rparr>"

definition example_env2 :: add_env where
  "example_env2 =
     \<lparr>local_nanoid = lit ''q3fT0aXc-91LmZ_wEr7Yb'', local_now = 1762041605000,
      store_nanoid = lit ''Hn5_kP2sVd8-cJ0xGuO4t'', store_now = 1762041605000\<rparr>"

text \<open>
  The item that an add of the title \<open>A\<close> stores under \<open>example_env\<close>, and the app holding
  just that item, with no banner and no timer.
\<close>

definition example_item :: todo where
  "example_item =
     \<lparr>id' = lit ''Uakgb_J5m9g-0JDMbcJqL'', title = lit ''A'', done = False,
      createdAt = 1762041600000\<rparr>"

definition example_app :: app where
  "example_app = app_initial\<lparr>todos := \<lparr>items = [example_item]\<rparr>\<rparr>"

section \<open>Trimming\<close>

lemma trim_decomp:
  "\<exists>pre suf. s = pre @ trim s @ suf \<and> list_all is_ws pre \<and> list_all is_ws suf"
proof -
  let ?u = "dropWhile is_ws s"
  let ?w = "takeWhile is_ws (rev ?u)"
  have 1: "s = takeWhile is_ws s @ ?u" by simp
  have "trim s @ rev ?w = rev (?w @ dropWhile is_ws (rev ?u))"
    by (simp only: trim_def rev_append)
  also have "\<dots> = rev (rev ?u)" by (simp only: takeWhile_dropWhile_id)
  finally have 2: "?u = trim s @ rev ?w" by simp
  have 3: "list_all is_ws (takeWhile is_ws s)"
    by (simp add: list_all_iff) (meson set_takeWhileD)
  have 4: "list_all is_ws (rev ?w)"
    by (simp add: list_all_iff) (meson set_takeWhileD)
  from 1 2 have "s = takeWhile is_ws s @ trim s @ rev ?w" by metis
  with 3 4 show ?thesis by blast
qed

lemma trim_ends:
  assumes "trim s \<noteq> []"
  shows "\<not> is_ws (hd (trim s)) \<and> \<not> is_ws (last (trim s))"
proof -
  let ?u = "dropWhile is_ws s"
  let ?v = "dropWhile is_ws (rev ?u)"
  from assms have v: "?v \<noteq> []" by (simp add: trim_def)
  have "?u = [] \<Longrightarrow> ?v = []" by (simp only: rev.simps dropWhile.simps)
  with v have u: "?u \<noteq> []" by blast
  have "last (trim s) = hd ?v" using v by (simp add: trim_def last_rev)
  moreover have "\<not> is_ws (hd ?v)" using v by (rule hd_dropWhile)
  moreover have "hd (trim s) = last ?v" using v by (simp add: trim_def hd_rev)
  moreover have "last ?v = last (rev ?u)"
    using v by (metis last_appendR takeWhile_dropWhile_id)
  moreover have "last (rev ?u) = hd ?u" using u by (simp add: last_rev)
  moreover have "\<not> is_ws (hd ?u)" using u by (rule hd_dropWhile)
  ultimately show ?thesis by simp
qed

lemma trim_empty_iff: "trim s = [] \<longleftrightarrow> list_all is_ws s"
proof
  assume "list_all is_ws s"
  then have "dropWhile is_ws s = []" by (simp only: list_all_iff dropWhile_eq_Nil_conv)
  then show "trim s = []" by (simp only: trim_def rev.simps dropWhile.simps)
next
  assume e: "trim s = []"
  obtain pre suf where "s = pre @ trim s @ suf" "list_all is_ws pre" "list_all is_ws suf"
    using trim_decomp by blast
  with e show "list_all is_ws s" by (metis append_Nil list_all_append)
qed

section \<open>The store operations\<close>

lemma toggle_found_absent: "payload \<notin> id' ` set ts \<Longrightarrow> toggle_found payload ts = ts"
  by (induction ts) auto

lemma toggle_found_twice: "toggle_found payload (toggle_found payload ts) = ts"
  by (induction ts) auto

lemma toggle_found_length: "length (toggle_found payload ts) = length ts"
  by (induction ts) auto

lemma toggle_found_ids: "map id' (toggle_found payload ts) = map id' ts"
  by (induction ts) auto

lemma find_toggle_found:
  "find (\<lambda>t. id' t = payload) (toggle_found payload ts) =
     map_option (\<lambda>t. t\<lparr>done := \<not> done t\<rparr>) (find (\<lambda>t. id' t = payload) ts)"
  by (induction ts) auto

lemma find_id_None: "find (\<lambda>t. id' t = payload) ts = None \<longleftrightarrow> payload \<notin> id' ` set ts"
  by (induction ts) auto

lemma toggleTodo_items: "items (toggleTodo state payload) = toggle_found payload (items state)"
  by (simp add: toggleTodo_def find_id_None toggle_found_absent split: option.split)

lemma toggleTodo_flips:
  "find (\<lambda>t. id' t = payload) (items (toggleTodo state payload)) =
     map_option (\<lambda>t. t\<lparr>done := \<not> done t\<rparr>) (find (\<lambda>t. id' t = payload) (items state))"
  by (simp add: toggleTodo_items find_toggle_found)

lemma toggleTodo_twice: "toggleTodo (toggleTodo state payload) payload = state"
proof -
  have "items (toggleTodo (toggleTodo state payload) payload) = items state"
    by (simp add: toggleTodo_items toggle_found_twice)
  moreover have "todos_state.more (toggleTodo (toggleTodo state payload) payload) = todos_state.more state"
    by (simp add: toggleTodo_def split: option.split)
  ultimately show ?thesis by simp
qed

text \<open>
  C5. Dispatching \<open>toggleTodo\<close> twice with the same id gives back the starting state of
  the slice: the toggled item has its first \<open>done\<close> flag again and nothing else differs.
  In between, the first item with that id (when there is one) has the flag flipped.
\<close>

theorem C5_toggle_twice_roundtrip:
  "toggleTodo (toggleTodo state payload) payload = state \<and>
   find (\<lambda>t. id' t = payload) (items (toggleTodo state payload)) =
     map_option (\<lambda>t. t\<lparr>done := \<not> done t\<rparr>) (find (\<lambda>t. id' t = payload) (items state))"
  using toggleTodo_twice toggleTodo_flips by blast

text \<open>
  C6. Dispatching \<open>removeTodo\<close> twice with the same id gives the state that dispatching
  it once gives, and that state holds no item with the id.
\<close>

theorem C6_remove_idempotent:
  "removeTodo (removeTodo state payload) payload = removeTodo state payload \<and>
   payload \<notin> id' ` set (items (removeTodo state payload))"
  by (auto simp: removeTodo_def)


section \<open>The handlers\<close>

lemma fold_clearBanner: "fold (\<lambda>_. clearBanner) xs s = (if xs = [] then s else clearBanner s)"
  by (induction xs arbitrary: s) (auto simp: clearBanner_def)

lemma find_by_id:
  "t \<in> set ts \<Longrightarrow> distinct (map id' ts) \<Longrightarrow> find (\<lambda>u. id' u = id' t) ts = Some t"
  by (induction ts) (auto simp: image_iff)

lemma reducers_absent:
  assumes "payload \<notin> id' ` set (items state)"
  shows "toggleTodo state payload = state \<and> removeTodo state payload = state"
proof -
  from assms have "find (\<lambda>t. id' t = payload) (items state) = None"
    by (simp add: find_id_None)
  then have "toggleTodo state payload = state" by (simp add: toggleTodo_def)
  moreover from assms have "filter (\<lambda>t. id' t \<noteq> payload) (items state) = items state"
    by (auto simp: filter_id_conv)
  then have "removeTodo state payload = state" by (simp add: removeTodo_def)
  ultimately show ?thesis by simp
qed

lemma handleAddTodo_nonempty:
  "trim (title_input s) \<noteq> [] \<Longrightarrow>
   handleAddTodo e s =
     Inr (s\<lparr>todos := (todos s)\<lparr>items := \<lparr>id' = store_nanoid e, title = trim (title_input s),
                                           done = False, createdAt = store_now e\<rparr> # items (todos s)\<rparr>,
            title_input := [],
            bannerMessage := lit ''Added: '' @ [0x22] @ trim (title_input s) @ [0x22],
            lastTodo := Some \<lparr>id' = local_nanoid e, title = trim (title_input s), done = False,
                              createdAt = local_now e\<rparr>,
            lastAction := Some Add, bannerVisible := True, timers := timers s @ [3000]\<rparr>)"
  by (simp add: handleAddTodo_def showBanner_def setTitle_def addTodo_prepare_def
      addTodo_reducer_def Let_def)

lemma handleToggleDone_not_done:
  "\<not> done t \<Longrightarrow>
   handleToggleDone t s =
     Inr (s\<lparr>todos := toggleTodo (todos s) (id' t),
            bannerMessage := lit ''Completed: '' @ [0x22] @ title t @ [0x22],
            lastTodo := Some t, lastAction := Some Done, bannerVisible := True,
            timers := timers s @ [3000]\<rparr>)"
  by (simp add: handleToggleDone_def showBanner_def)

lemma handleToggleDone_done:
  "done t \<Longrightarrow>
   handleToggleDone t s =
     Inr (s\<lparr>todos := toggleTodo (todos s) (id' t),
            bannerVisible := False, lastTodo := None, lastAction := None, bannerMessage := []\<rparr>)"
  by (simp add: handleToggleDone_def clearBanner_def)

lemma elapse_none_due:
  assumes "list_all (\<lambda>r. d < r) (timers s)"
  shows "elapse d s = Inr (s\<lparr>timers := map (\<lambda>r. r - d) (timers s)\<rparr>)"
proof -
  from assms have "filter (\<lambda>r. r \<le> d) (timers s) = []"
    by (auto simp: filter_empty_conv list_all_iff)
  moreover from assms have "filter (\<lambda>r. d < r) (timers s) = timers s"
    by (simp add: filter_id_conv list_all_iff)
  ultimately show ?thesis by (simp add: elapse_def)
qed

lemma elapse_some_due:
  assumes "list_ex (\<lambda>r. r \<le> d) (timers s)"
  shows "elapse d s =
     Inr (clearBanner (s\<lparr>timers := map (\<lambda>r. r - d) (filter (\<lambda>r. d < r) (timers s))\<rparr>))"
proof -
  from assms have "filter (\<lambda>r. r \<le> d) (timers s) \<noteq> []"
    by (auto simp: filter_empty_conv list_ex_iff)
  then show ?thesis by (simp add: elapse_def fold_clearBanner)
qed

text \<open>
  What undo does after an add, for any ids: it filters the store on the id of the local
  \<open>newTodo\<close>, not on the id of the item that \<open>prepare\<close> built and the reducer stored.
\<close>

lemma undo_after_add:
  assumes "trim (title_input s) \<noteq> []"
  shows "\<exists>s1 s2. handleAddTodo e s = Inr s1 \<and> handleUndo s1 = Inr s2 \<and>
     items (todos s2) =
       filter (\<lambda>t. id' t \<noteq> local_nanoid e)
         (\<lparr>id' = store_nanoid e, title = trim (title_input s), done = False,
           createdAt = store_now e\<rparr> # items (todos s)) \<and>
     \<not> bannerVisible s2 \<and> lastTodo s2 = None \<and> lastAction s2 = None \<and> bannerMessage s2 = []"
  using assms by (simp add: handleAddTodo_nonempty handleUndo_def clearBanner_def removeTodo_def)

section \<open>The claims\<close>

text \<open>
  C1. After an add, undo should remove the item the add put into the store. At this
  input (the title \<open>A\<close>, the two calls of \<^verbatim>\<open>nanoid()\<close> returning different ids) the add
  stores an item under the id made in \<open>prepare\<close> and remembers, as \<open>lastTodo\<close>, its local
  object under the other id; undo then removes nothing: the stored item is still there
  and the count stays 1. The banner does return to idle.
\<close>

theorem C1_undo_after_add_keeps_stored_item:
  "andThen (onChangeText (lit ''A'') app_initial) (handleAddTodo example_env) =
     Inr \<lparr>darkMode = False,
          todos = \<lparr>items = [\<lparr>id' = lit ''Uakgb_J5m9g-0JDMbcJqL'', title = lit ''A'', done = False,
                             createdAt = 1762041600000\<rparr>]\<rparr>,
          title_input = [], bannerVisible = True,
          bannerMessage = lit ''Added: '' @ [0x22] @ lit ''A'' @ [0x22],
          lastTodo = Some \<lparr>id' = lit ''V1StGXR8_Z5jdHi6B-myT'', title = lit ''A'', done = False,
                            createdAt = 1762041600000\<rparr>,
          lastAction = Some Add, timers = [3000]\<rparr> \<and>
   andThen (andThen (onChangeText (lit ''A'') app_initial) (handleAddTodo example_env)) handleUndo =
     Inr \<lparr>darkMode = False,
          todos = \<lparr>items = [\<lparr>id' = lit ''Uakgb_J5m9g-0JDMbcJqL'', title = lit ''A'', done = False,
                             createdAt = 1762041600000\<rparr>]\<rparr>,
          title_input = [], bannerVisible = False, bannerMessage = [],
          lastTodo = None, lastAction = None, timers = [3000]\<rparr>"
  by (simp add: andThen_def onChangeText_def setTitle_def handleAddTodo_def handleUndo_def
      showBanner_def clearBanner_def addTodo_prepare_def addTodo_reducer_def removeTodo_def
      Let_def app_initial_def todos_initialState_def example_env_def trim_def lit_def is_ws_def)

text \<open>
  C2, as stated, fails: \<open>showBanner\<close> cancels nothing. Add \<open>A\<close>; 2000 ms later complete it.
  Both timers are now pending, \<open>[1000, 3000]\<close>, and the banner shows the completion. After
  1000 ms more the timer of the add runs and clears the banner of the completion, 1000 ms
  after it was shown.
\<close>

theorem C2_stale_timer_counterexample:
  "andThen (andThen (andThen (onChangeText (lit ''A'') app_initial) (handleAddTodo example_env))
                    (elapse 2000))
           (handleToggleDone \<lparr>id' = lit ''Uakgb_J5m9g-0JDMbcJqL'', title = lit ''A'', done = False,
                              createdAt = 1762041600000\<rparr>) =
     Inr \<lparr>darkMode = False,
          todos = \<lparr>items = [\<lparr>id' = lit ''Uakgb_J5m9g-0JDMbcJqL'', title = lit ''A'', done = True,
                             createdAt = 1762041600000\<rparr>]\<rparr>,
          title_input = [], bannerVisible = True,
          bannerMessage = lit ''Completed: '' @ [0x22] @ lit ''A'' @ [0x22],
          lastTodo = Some \<lparr>id' = lit ''Uakgb_J5m9g-0JDMbcJqL'', title = lit ''A'', done = False,
                            createdAt = 1762041600000\<rparr>,
          lastAction = Some Done, timers = [1000, 3000]\<rparr> \<and>
   andThen (andThen (andThen (andThen (onChangeText (lit ''A'') app_initial)
                                      (handleAddTodo example_env))
                             (elapse 2000))
                    (handleToggleDone \<lparr>id' = lit ''Uakgb_J5m9g-0JDMbcJqL'', title = lit ''A'',
                                       done = False, createdAt = 1762041600000\<rparr>))
           (elapse 1000) =
     Inr \<lparr>darkMode = False,
          todos = \<lparr>items = [\<lparr>id' = lit ''Uakgb_J5m9g-0JDMbcJqL'', title = lit ''A'', done = True,
                             createdAt = 1762041600000\<rparr>]\<rparr>,
          title_input = [], bannerVisible = False, bannerMessage = [],
          lastTodo = None, lastAction = None, timers = [2000]\<rparr>"
  by (simp add: andThen_def onChangeText_def setTitle_def handleAddTodo_def handleToggleDone_def
      elapse_def showBanner_def clearBanner_def addTodo_prepare_def addTodo_reducer_def
      toggleTodo_def Let_def app_initial_def todos_initialState_def example_env_def trim_def
      lit_def is_ws_def)

text \<open>
  C2, amended. Every transition into the showing state (\<open>showBanner\<close>) starts a timer of
  3000 ms and cancels none: the timers of earlier banners stay pending. While no pending
  timer is due, time passing leaves the banner as it is. As soon as any pending timer is
  due, also one that an earlier banner started, the banner is cleared and the store is
  not touched. So the banner is cleared 3000 ms after the latest transition at the latest.
\<close>

theorem C2_timers_never_cancelled:
  "timers (showBanner m t a s) = timers s @ [3000] \<and> bannerVisible (showBanner m t a s) \<and>
   (list_all (\<lambda>r. d < r) (timers s) \<longrightarrow>
      elapse d s = Inr (s\<lparr>timers := map (\<lambda>r. r - d) (timers s)\<rparr>)) \<and>
   (list_ex (\<lambda>r. r \<le> d') (timers s) \<longrightarrow>
      (\<exists>s'. elapse d' s = Inr s' \<and> \<not> bannerVisible s' \<and> lastTodo s' = None \<and>
            lastAction s' = None \<and> bannerMessage s' = [] \<and> todos s' = todos s)) \<and>
   (3000 \<le> d'' \<longrightarrow>
      (\<exists>s'. elapse d'' (showBanner m t a s) = Inr s' \<and> \<not> bannerVisible s' \<and>
            lastTodo s' = None \<and> lastAction s' = None \<and> bannerMessage s' = []))"
proof -
  have 1: "timers (showBanner m t a s) = timers s @ [3000] \<and> bannerVisible (showBanner m t a s)"
    by (simp add: showBanner_def)
  have 2: "list_all (\<lambda>r. d < r) (timers s) \<longrightarrow>
      elapse d s = Inr (s\<lparr>timers := map (\<lambda>r. r - d) (timers s)\<rparr>)"
    using elapse_none_due by blast
  have 3: "list_ex (\<lambda>r. r \<le> d') (timers s) \<longrightarrow>
      (\<exists>s'. elapse d' s = Inr s' \<and> \<not> bannerVisible s' \<and> lastTodo s' = None \<and>
            lastAction s' = None \<and> bannerMessage s' = [] \<and> todos s' = todos s)"
    by (simp add: elapse_some_due clearBanner_def)
  have 4: "3000 \<le> d'' \<longrightarrow>
      (\<exists>s'. elapse d'' (showBanner m t a s) = Inr s' \<and> \<not> bannerVisible s' \<and>
            lastTodo s' = None \<and> lastAction s' = None \<and> bannerMessage s' = [])"
  proof
    assume "3000 \<le> d''"
    then have "list_ex (\<lambda>r. r \<le> d'') (timers (showBanner m t a s))"
      by (simp add: showBanner_def)
    then show "\<exists>s'. elapse d'' (showBanner m t a s) = Inr s' \<and> \<not> bannerVisible s' \<and>
            lastTodo s' = None \<and> lastAction s' = None \<and> bannerMessage s' = []"
      by (simp add: elapse_some_due clearBanner_def)
  qed
  from 1 2 3 4 show ?thesis by blast
qed

text \<open>
  The amended C2 at a state with the banner of an add showing and its timer at 1000 ms,
  for a new banner, for 500 ms passing (nothing due), 1000 ms passing (the old timer due)
  and 3000 ms passing after the new banner.
\<close>

theorem C2_timers_never_cancelled_witness:
  "list_all (\<lambda>r. 500 < r) (timers (app_initial\<lparr>bannerVisible := True, timers := [1000]\<rparr>)) \<and>
   list_ex (\<lambda>r. r \<le> 1000) (timers (app_initial\<lparr>bannerVisible := True, timers := [1000]\<rparr>)) \<and>
   timers (showBanner (lit ''x'') \<lparr>id' = lit ''i'', title = lit ''x'', done = False, createdAt = 0\<rparr>
             Done (app_initial\<lparr>bannerVisible := True, timers := [1000]\<rparr>)) = [1000, 3000] \<and>
   elapse 500 (app_initial\<lparr>bannerVisible := True, timers := [1000]\<rparr>) =
     Inr (app_initial\<lparr>bannerVisible := True, timers := [500]\<rparr>) \<and>
   (\<exists>s'. elapse 1000 (app_initial\<lparr>bannerVisible := True, timers := [1000]\<rparr>) = Inr s' \<and>
         \<not> bannerVisible s') \<and>
   (\<exists>s'. elapse 3000
           (showBanner (lit ''x'') \<lparr>id' = lit ''i'', title = lit ''x'', done = False, createdAt = 0\<rparr>
              Done (app_initial\<lparr>bannerVisible := True, timers := [1000]\<rparr>)) = Inr s' \<and>
         \<not> bannerVisible s')"
proof -
  let ?s = "app_initial\<lparr>bannerVisible := True, timers := [1000]\<rparr>"
  let ?t = "\<lparr>id' = lit ''i'', title = lit ''x'', done = False, createdAt = 0\<rparr>"
  have h1: "list_all (\<lambda>r. 500 < r) (timers ?s)" by simp
  have h2: "list_ex (\<lambda>r. r \<le> 1000) (timers ?s)" by simp
  have h3: "(3000::nat) \<le> 3000" by simp
  from C2_timers_never_cancelled [of "lit ''x''" ?t Done ?s 500 1000 3000] h1 h2 h3
  show ?thesis by auto
qed

text \<open>
  C3, as stated, fails in its second half: with three spaces typed, the add handler
  reports no error. It returns as it does after an add that went through, and the state
  is the one it started from.
\<close>

theorem C3_no_error_reported_counterexample:
  "andThen (onChangeText (lit ''   '') app_initial) (handleAddTodo example_env) \<noteq> Inl InvalidInput \<and>
   andThen (onChangeText (lit ''   '') app_initial) (handleAddTodo example_env) =
     Inr \<lparr>darkMode = False, todos = \<lparr>items = []\<rparr>, title_input = lit ''   '',
          bannerVisible = False, bannerMessage = [], lastTodo = None, lastAction = None,
          timers = []\<rparr>"
  by (simp add: andThen_def onChangeText_def setTitle_def handleAddTodo_def app_initial_def
      todos_initialState_def trim_def lit_def is_ws_def)

text \<open>
  C3, amended. For every title whose trimmed value is empty, the add handler returns
  normally and leaves the whole state as it was: the store (no item inserted, the count
  unchanged), the text field, the banner and the timers. No error is reported.
\<close>

theorem C3_empty_title_is_ignored:
  "trim (title_input s) = [] \<Longrightarrow>
   handleAddTodo e s = Inr s \<and> handleAddTodo e s \<noteq> Inl InvalidInput"
  by (simp add: handleAddTodo_def)

theorem C3_empty_title_is_ignored_witness:
  "trim (title_input (example_app\<lparr>title_input := []\<rparr>)) = [] \<and>
   handleAddTodo example_env2 (example_app\<lparr>title_input := []\<rparr>) =
     Inr (example_app\<lparr>title_input := []\<rparr>) \<and>
   length (items (todos (example_app\<lparr>title_input := []\<rparr>))) = 1"
proof -
  have h: "trim (title_input (example_app\<lparr>title_input := []\<rparr>)) = []"
    by (simp add: trim_def)
  have "length (items (todos (example_app\<lparr>title_input := []\<rparr>))) = 1"
    by (simp add: example_app_def)
  with C3_empty_title_is_ignored [OF h, of example_env2] h show ?thesis by blast
qed




text \<open>
  C7. With an id that no item of the store has, \<open>toggleTodo\<close> and \<open>removeTodo\<close> return the
  state they were given, as reducers and when dispatched, and the toggle handler returns
  with the store unchanged. Undo with no \<open>lastTodo\<close> or no \<open>lastAction\<close> returns with the
  whole state unchanged. Dismiss returns in every state and leaves the store unchanged.
  None of them reports an error.
\<close>

theorem C7_noops_never_fail:
  "(payload \<notin> id' ` set (items state) \<longrightarrow>
      toggleTodo state payload = state \<and> removeTodo state payload = state) \<and>
   (payload \<notin> id' ` set (items (todos s)) \<longrightarrow>
      dispatch (ToggleTodo payload) s = s \<and> dispatch (RemoveTodo payload) s = s) \<and>
   (id' t \<notin> id' ` set (items (todos s)) \<longrightarrow>
      (\<exists>s'. handleToggleDone t s = Inr s' \<and> todos s' = todos s)) \<and>
   (lastTodo s = None \<or> lastAction s = None \<longrightarrow> handleUndo s = Inr s) \<and>
   (\<exists>s'. handleDismiss s = Inr s' \<and> todos s' = todos s)"
proof -
  have 1: "payload \<notin> id' ` set (items state) \<longrightarrow>
      toggleTodo state payload = state \<and> removeTodo state payload = state"
    using reducers_absent by blast
  have 2: "payload \<notin> id' ` set (items (todos s)) \<longrightarrow>
      dispatch (ToggleTodo payload) s = s \<and> dispatch (RemoveTodo payload) s = s"
    by (simp add: reducers_absent)
  have 3: "id' t \<notin> id' ` set (items (todos s)) \<longrightarrow>
      (\<exists>s'. handleToggleDone t s = Inr s' \<and> todos s' = todos s)"
    by (cases "done t") (simp_all add: handleToggleDone_done handleToggleDone_not_done reducers_absent)
  have 4: "lastTodo s = None \<or> lastAction s = None \<longrightarrow> handleUndo s = Inr s"
    by (auto simp: handleUndo_def split: option.splits)
  have 5: "\<exists>s'. handleDismiss s = Inr s' \<and> todos s' = todos s"
    by (simp add: handleDismiss_def clearBanner_def)
  from 1 2 3 4 5 show ?thesis by blast
qed

text \<open>
  C7 at the app that holds the item \<open>A\<close> and shows no banner, with the id that the add
  handler made for its local object, which is not in the store.
\<close>

theorem C7_noops_never_fail_witness:
  "lit ''V1StGXR8_Z5jdHi6B-myT'' \<notin> id' ` set (items (todos example_app)) \<and>
   lastTodo example_app = None \<and>
   toggleTodo (todos example_app) (lit ''V1StGXR8_Z5jdHi6B-myT'') = todos example_app \<and>
   removeTodo (todos example_app) (lit ''V1StGXR8_Z5jdHi6B-myT'') = todos example_app \<and>
   dispatch (ToggleTodo (lit ''V1StGXR8_Z5jdHi6B-myT'')) example_app = example_app \<and>
   dispatch (RemoveTodo (lit ''V1StGXR8_Z5jdHi6B-myT'')) example_app = example_app \<and>
   (\<exists>s'. handleToggleDone (example_item\<lparr>id' := lit ''V1StGXR8_Z5jdHi6B-myT''\<rparr>) example_app = Inr s' \<and>
         items (todos s') = [example_item]) \<and>
   handleUndo example_app = Inr example_app \<and>
   (\<exists>s'. handleDismiss example_app = Inr s' \<and> items (todos s') = [example_item])"
proof -
  have h1: "lit ''V1StGXR8_Z5jdHi6B-myT'' \<notin> id' ` set (items (todos example_app))"
    by (simp add: example_app_def example_item_def lit_def)
  have h2: "lastTodo example_app = None"
    by (simp add: example_app_def app_initial_def)
  have it: "items (todos example_app) = [example_item]"
    by (simp add: example_app_def)
  from C7_noops_never_fail [of "lit ''V1StGXR8_Z5jdHi6B-myT''" "todos example_app" example_app
      "example_item\<lparr>id' := lit ''V1StGXR8_Z5jdHi6B-myT''\<rparr>"] h1 h2 it
  show ?thesis by auto
qed

text \<open>
  C8. The toggle handler, called with an item of the store that is not done, returns
  with the banner showing: \<open>lastAction\<close> is \<open>done\<close>, \<open>lastTodo\<close> is that item and the message
  quotes its title; where the ids of the store are distinct the stored item is now done.
  Undo, called next, returns with the store as it was before the toggle, so the item is
  in the store with \<open>done = false\<close>, and with the banner idle.
\<close>

theorem C8_undo_reverts_complete:
  assumes "t \<in> set (items (todos s))" and "\<not> done t"
  shows "\<exists>s1 s2. handleToggleDone t s = Inr s1 \<and>
           bannerVisible s1 \<and> lastAction s1 = Some Done \<and> lastTodo s1 = Some t \<and>
           bannerMessage s1 = lit ''Completed: '' @ [0x22] @ title t @ [0x22] \<and>
           (distinct (map id' (items (todos s))) \<longrightarrow>
              find (\<lambda>u. id' u = id' t) (items (todos s1)) = Some (t\<lparr>done := True\<rparr>)) \<and>
           handleUndo s1 = Inr s2 \<and>
           todos s2 = todos s \<and> t \<in> set (items (todos s2)) \<and>
           (distinct (map id' (items (todos s))) \<longrightarrow>
              find (\<lambda>u. id' u = id' t) (items (todos s2)) = Some t) \<and>
           \<not> bannerVisible s2 \<and> lastTodo s2 = None \<and> lastAction s2 = None \<and> bannerMessage s2 = []"
proof -
  define s1 where
    "s1 = s\<lparr>todos := toggleTodo (todos s) (id' t),
            bannerMessage := lit ''Completed: '' @ [0x22] @ title t @ [0x22],
            lastTodo := Some t, lastAction := Some Done, bannerVisible := True,
            timers := timers s @ [3000]\<rparr>"
  define s2 where "s2 = clearBanner (dispatch (ToggleTodo (id' t)) s1)"
  have f: "distinct (map id' (items (todos s))) \<longrightarrow>
             find (\<lambda>u. id' u = id' t) (items (todos s)) = Some t"
    using assms(1) by (simp add: find_by_id)
  have a: "handleToggleDone t s = Inr s1"
    unfolding s1_def using assms(2) by (rule handleToggleDone_not_done)
  have b: "handleUndo s1 = Inr s2"
    by (simp add: handleUndo_def s1_def s2_def)
  have c: "todos s2 = todos s"
    by (simp add: s1_def s2_def clearBanner_def toggleTodo_twice)
  have d: "distinct (map id' (items (todos s))) \<longrightarrow>
             find (\<lambda>u. id' u = id' t) (items (todos s1)) = Some (t\<lparr>done := True\<rparr>)"
    using f assms(2) by (simp add: s1_def toggleTodo_flips)
  have e: "\<not> bannerVisible s2 \<and> lastTodo s2 = None \<and> lastAction s2 = None \<and> bannerMessage s2 = []"
    by (simp add: s2_def clearBanner_def)
  have g: "bannerVisible s1 \<and> lastAction s1 = Some Done \<and> lastTodo s1 = Some t \<and>
           bannerMessage s1 = lit ''Completed: '' @ [0x22] @ title t @ [0x22]"
    by (simp add: s1_def)
  show ?thesis
    apply (rule exI [of _ s1], rule exI [of _ s2])
    using a b c d e f g assms(1) by simp
qed

text \<open>C8 at the app that holds the item \<open>A\<close>, not done, toggled and undone.\<close>

theorem C8_undo_reverts_complete_witness:
  "example_item \<in> set (items (todos example_app)) \<and> \<not> done example_item \<and>
   distinct (map id' (items (todos example_app))) \<and>
   (\<exists>s1 s2. handleToggleDone example_item example_app = Inr s1 \<and>
            bannerVisible s1 \<and> lastAction s1 = Some Done \<and>
            find (\<lambda>u. id' u = id' example_item) (items (todos s1)) = Some (example_item\<lparr>done := True\<rparr>) \<and>
            handleUndo s1 = Inr s2 \<and>
            items (todos s2) = [example_item] \<and>
            find (\<lambda>u. id' u = id' example_item) (items (todos s2)) = Some example_item \<and>
            \<not> bannerVisible s2 \<and> lastTodo s2 = None \<and> lastAction s2 = None)"
proof -
  have h1: "example_item \<in> set (items (todos example_app))" by (simp add: example_app_def)
  have h2: "\<not> done example_item" by (simp add: example_item_def)
  have h3: "distinct (map id' (items (todos example_app)))" by (simp add: example_app_def)
  have it: "items (todos example_app) = [example_item]" by (simp add: example_app_def)
  from C8_undo_reverts_complete [OF h1 h2] obtain s1 s2 where
    r: "handleToggleDone example_item example_app = Inr s1"
       "bannerVisible s1" "lastAction s1 = Some Done"
       "distinct (map id' (items (todos example_app))) \<longrightarrow>
          find (\<lambda>u. id' u = id' example_item) (items (todos s1)) = Some (example_item\<lparr>done := True\<rparr>)"
       "handleUndo s1 = Inr s2" "todos s2 = todos example_app"
       "distinct (map id' (items (todos example_app))) \<longrightarrow>
          find (\<lambda>u. id' u = id' example_item) (items (todos s2)) = Some example_item"
       "\<not> bannerVisible s2" "lastTodo s2 = None" "lastAction s2 = None"
    by blast
  from r h3 it have
    "handleToggleDone example_item example_app = Inr s1 \<and>
     bannerVisible s1 \<and> lastAction s1 = Some Done \<and>
     find (\<lambda>u. id' u = id' example_item) (items (todos s1)) = Some (example_item\<lparr>done := True\<rparr>) \<and>
     handleUndo s1 = Inr s2 \<and>
     items (todos s2) = [example_item] \<and>
     find (\<lambda>u. id' u = id' example_item) (items (todos s2)) = Some example_item \<and>
     \<not> bannerVisible s2 \<and> lastTodo s2 = None \<and> lastAction s2 = None"
    by simp
  with h1 h2 h3 show ?thesis by blast
qed

text \<open>
  C9. The toggle handler, called with an item that is done, returns with the banner
  idle, whatever the banner was: not visible, no \<open>lastTodo\<close>, no \<open>lastAction\<close>, the message
  empty. The store is the old one with \<open>toggleTodo\<close> applied for the item's id.
\<close>

theorem C9_uncomplete_goes_idle:
  "done t \<Longrightarrow>
   \<exists>s'. handleToggleDone t s = Inr s' \<and>
        \<not> bannerVisible s' \<and> lastTodo s' = None \<and> lastAction s' = None \<and> bannerMessage s' = [] \<and>
        todos s' = toggleTodo (todos s) (id' t)"
  by (simp add: handleToggleDone_done)

text \<open>
  C9 at the state the completion of \<open>A\<close> leaves (the item done, the banner showing),
  with the done item toggled back.
\<close>

theorem C9_uncomplete_goes_idle_witness:
  "done (example_item\<lparr>done := True\<rparr>) \<and>
   (\<exists>s'. handleToggleDone (example_item\<lparr>done := True\<rparr>)
           (app_initial\<lparr>todos := \<lparr>items = [example_item\<lparr>done := True\<rparr>]\<rparr>, bannerVisible := True,
              bannerMessage := lit ''Completed: '' @ [0x22] @ lit ''A'' @ [0x22],
              lastTodo := Some example_item, lastAction := Some Done, timers := [3000]\<rparr>) = Inr s' \<and>
         \<not> bannerVisible s' \<and> lastTodo s' = None \<and> lastAction s' = None \<and> bannerMessage s' = [] \<and>
         items (todos s') = [example_item])"
proof -
  let ?s = "app_initial\<lparr>todos := \<lparr>items = [example_item\<lparr>done := True\<rparr>]\<rparr>, bannerVisible := True,
              bannerMessage := lit ''Completed: '' @ [0x22] @ lit ''A'' @ [0x22],
              lastTodo := Some example_item, lastAction := Some Done, timers := [3000]\<rparr>"
  have h: "done (example_item\<lparr>done := True\<rparr>)" by simp
  have tg: "items (toggleTodo (todos ?s) (id' (example_item\<lparr>done := True\<rparr>))) = [example_item]"
    by (simp add: toggleTodo_def example_item_def)
  from C9_uncomplete_goes_idle [OF h, of ?s] tg h show ?thesis by auto
qed

text \<open>
  C10. For a title whose trimmed value is not empty, the add handler returns with the
  trimmed title as the title of the first item of the store and with the banner showing
  the message \<open>Added: "\<close>, the trimmed title, \<open>"\<close> (the code unit \<open>0x22\<close> is the double
  quote). The trimmed title is the typed one without a run of white space at its start
  and one at its end, and neither begins nor ends with white space.
\<close>

theorem C10_added_title_is_trimmed:
  "trim (title_input s) \<noteq> [] \<Longrightarrow>
   \<exists>s'. handleAddTodo e s = Inr s' \<and>
        title (hd (items (todos s'))) = trim (title_input s) \<and>
        bannerMessage s' = lit ''Added: '' @ [0x22] @ trim (title_input s) @ [0x22] \<and>
        bannerVisible s' \<and>
        (\<exists>pre suf. title_input s = pre @ trim (title_input s) @ suf \<and>
                   list_all is_ws pre \<and> list_all is_ws suf) \<and>
        \<not> is_ws (hd (trim (title_input s))) \<and> \<not> is_ws (last (trim (title_input s)))"
  using trim_decomp [of "title_input s"] trim_ends [of "title_input s"]
  by (simp add: handleAddTodo_nonempty)

text \<open>C10 with \<open>Buy milk\<close> typed between two spaces and a tab and a space.\<close>

theorem C10_added_title_is_trimmed_witness:
  "trim (title_input (setTitle ([0x20, 0x20] @ lit ''Buy milk'' @ [0x09, 0x20]) app_initial)) \<noteq> [] \<and>
   (\<exists>s'. handleAddTodo example_env
           (setTitle ([0x20, 0x20] @ lit ''Buy milk'' @ [0x09, 0x20]) app_initial) = Inr s' \<and>
         title (hd (items (todos s'))) = lit ''Buy milk'' \<and>
         bannerMessage s' = lit ''Added: '' @ [0x22] @ lit ''Buy milk'' @ [0x22] \<and>
         bannerVisible s')"
proof -
  let ?s = "setTitle ([0x20, 0x20] @ lit ''Buy milk'' @ [0x09, 0x20]) app_initial"
  have tr: "trim (title_input ?s) = lit ''Buy milk''"
    by (simp add: setTitle_def trim_def lit_def is_ws_def)
  have h: "trim (title_input ?s) \<noteq> []"
    unfolding tr by (simp add: lit_def)
  from C10_added_title_is_trimmed [OF h, of example_env] tr h show ?thesis by auto
qed

end
